theory Spec2Isabelle
  imports Main "HOL-Library.Word" "HOL-Library.Sublist"
begin

section \<open>The GCS logging endpoint update command (pkg/logging/gcs/update.go)\<close>

text \<open>
  The command reads its flags, fetches the stored endpoint with \<open>GetGCS\<close>, overwrites
  the fields whose optional flag was given, sends the result with \<open>UpdateGCS\<close> and
  prints a confirmation. The API client is a collaborator of the command: it is a
  parameter of the model (a pair of functions over the state of the remote platform),
  and every call made through it is appended to a log of requests.
\<close>

subsection \<open>Machine integers\<close>

text \<open>
  Go's \<open>int\<close> and \<open>uint\<close> are 64 bits wide on the platforms the program is built for,
  \<open>uint8\<close> is 8 bits wide. The command never computes with them: it copies them and
  prints the version, read as a signed number.
\<close>

type_synonym go_int = "64 word"
type_synonym go_uint = "64 word"
type_synonym go_uint8 = "8 word"

subsection \<open>Errors\<close>

text \<open>
  \<open>ErrNoServiceID\<close> is the local validation error of package \<open>errors\<close>; every other
  error is whatever value the API client returned, kept opaque as \<open>APIError\<close> with its
  message.
\<close>

datatype error = ErrNoServiceID | APIError string

subsection \<open>The objects of the API client library\<close>

text \<open>The fields of \<open>fastly.GCS\<close> that the command reads.\<close>

record GCS =
  ServiceID :: string
  Version :: go_int
  Name :: string
  Bucket :: string
  User :: string
  SecretKey :: string
  Path :: string
  Period :: go_uint
  FormatVersion :: go_uint
  GzipLevel :: go_uint8
  Format :: string
  MessageType :: string
  ResponseCondition :: string
  TimestampFormat :: string
  Placement :: string

record GetGCSInput =
  Service :: string
  Name :: string
  Version :: go_int

record UpdateGCSInput =
  Service :: string
  Version :: go_int
  Name :: string
  NewName :: string
  Bucket :: string
  User :: string
  SecretKey :: string
  Path :: string
  Period :: go_uint
  FormatVersion :: go_uint
  GzipLevel :: go_uint8
  Format :: string
  MessageType :: string
  ResponseCondition :: string
  TimestampFormat :: string
  Placement :: string

text \<open>
  The client: each method takes its input and the state of the remote platform and
  returns an error or the object, and the new state of the platform.
\<close>

record 'w Client =
  GetGCS :: "GetGCSInput \<Rightarrow> 'w \<Rightarrow> (error + GCS) \<times> 'w"
  UpdateGCS :: "UpdateGCSInput \<Rightarrow> 'w \<Rightarrow> (error + GCS) \<times> 'w"

text \<open>
  One entry per call made through the client; the state threaded through the command
  is the log of the calls made so far and the state of the remote platform.
\<close>

datatype call = CallGetGCS GetGCSInput | CallUpdateGCS UpdateGCSInput

type_synonym 'w net = "call list \<times> 'w"

definition call_GetGCS :: "'w Client \<Rightarrow> GetGCSInput \<Rightarrow> 'w net \<Rightarrow> (error + GCS) \<times> 'w net" where
  "call_GetGCS cl i s =
     (case GetGCS cl i (snd s) of (r, w') \<Rightarrow> (r, (fst s @ [CallGetGCS i], w')))"

definition call_UpdateGCS :: "'w Client \<Rightarrow> UpdateGCSInput \<Rightarrow> 'w net \<Rightarrow> (error + GCS) \<times> 'w net" where
  "call_UpdateGCS cl i s =
     (case UpdateGCS cl i (snd s) of (r, w') \<Rightarrow> (r, (fst s @ [CallUpdateGCS i], w')))"

subsection \<open>The command\<close>

text \<open>
  \<open>common.OptionalString\<close>, \<open>common.OptionalUint\<close> and \<open>common.OptionalUint8\<close>: a value
  and the mark \<open>Valid\<close> that the flag's action sets when the user gives the flag.
\<close>

record 'a Optional =
  Valid :: bool
  Value :: 'a

text \<open>
  \<open>manifest.Data\<close>: the service ID of the \<open>--service-id\<close> flag (bound to
  \<open>manifest.Flag.ServiceID\<close> by \<open>NewUpdateCommand\<close>) and the one read from the manifest
  file. Both are Go strings, empty when nothing was given.
\<close>

record manifest_Flag =
  ServiceID :: string

record manifest_File =
  ServiceID :: string

record manifest_Data =
  File :: manifest_File
  Flag :: manifest_Flag

datatype Source = SourceUndefined | SourceFile | SourceFlag

text \<open>
  Modelled from the spec: \<open>manifest.Data.ServiceID\<close> (package \<open>manifest\<close> is not among the
  sources). The manifest is "a local project file supplying a default service ID when
  none is passed via flag", and the validation error is "no service ID resolved from
  manifest or flag": the flag's value when one was passed, otherwise the file's, otherwise
  nothing, with the source of the value.
\<close>

definition ServiceID :: "manifest_Data \<Rightarrow> string \<times> Source" where
  "ServiceID d =
     (if manifest_Flag.ServiceID (Flag d) \<noteq> [] then (manifest_Flag.ServiceID (Flag d), SourceFlag)
      else if manifest_File.ServiceID (File d) \<noteq> [] then (manifest_File.ServiceID (File d), SourceFile)
      else ([], SourceUndefined))"

text \<open>\<open>config.Data\<close>: the globals of the program; the command uses its API client only.\<close>

record 'w config_Data =
  Client :: "'w Client"

record 'w UpdateCommand =
  Globals :: "'w config_Data"
  manifest :: manifest_Data
  EndpointName :: string
  Version :: go_int
  NewName :: "string Optional"
  Bucket :: "string Optional"
  User :: "string Optional"
  SecretKey :: "string Optional"
  Path :: "string Optional"
  Period :: "go_uint Optional"
  FormatVersion :: "go_uint Optional"
  GzipLevel :: "go_uint8 Optional"
  Format :: "string Optional"
  ResponseCondition :: "string Optional"
  TimestampFormat :: "string Optional"
  MessageType :: "string Optional"
  Placement :: "string Optional"

subsection \<open>NewUpdateCommand and the command line\<close>

text \<open>
  \<open>NewUpdateCommand\<close> registers sixteen flags and binds each to a field of the command.
  A command line is the list of the flags it gives, each with its value already
  converted to the type of the flag's variable (\<open>StringVar\<close>, \<open>IntVar\<close>, \<open>UintVar\<close>,
  \<open>Uint8Var\<close>); \<open>-s\<close> and \<open>-n\<close> are \<open>--service-id\<close> and \<open>--name\<close>.
\<close>

datatype flag =
    Flag_service_id string
  | Flag_version go_int
  | Flag_name string
  | Flag_new_name string
  | Flag_bucket string
  | Flag_user string
  | Flag_secret_key string
  | Flag_path string
  | Flag_period go_uint
  | Flag_format_version go_uint
  | Flag_gzip_level go_uint8
  | Flag_format string
  | Flag_response_condition string
  | Flag_timestamp_format string
  | Flag_message_type string
  | Flag_placement string

fun name_of :: "flag \<Rightarrow> string" where
  "name_of (Flag_service_id v) = ''service-id''"
| "name_of (Flag_version v) = ''version''"
| "name_of (Flag_name v) = ''name''"
| "name_of (Flag_new_name v) = ''new-name''"
| "name_of (Flag_bucket v) = ''bucket''"
| "name_of (Flag_user v) = ''user''"
| "name_of (Flag_secret_key v) = ''secret-key''"
| "name_of (Flag_path v) = ''path''"
| "name_of (Flag_period v) = ''period''"
| "name_of (Flag_format_version v) = ''format-version''"
| "name_of (Flag_gzip_level v) = ''gzip-level''"
| "name_of (Flag_format v) = ''format''"
| "name_of (Flag_response_condition v) = ''response-condition''"
| "name_of (Flag_timestamp_format v) = ''timestamp-format''"
| "name_of (Flag_message_type v) = ''message-type''"
| "name_of (Flag_placement v) = ''placement''"

text \<open>The flags registered with \<open>Required()\<close> (lines 48 and 49).\<close>

definition required_flags :: "string list" where
  "required_flags = [''version'', ''name'']"

text \<open>
  The command as \<open>NewUpdateCommand\<close> returns it, before the command line is parsed: the
  globals, the manifest file as \<open>File.Read\<close> found it, and Go's zero value in every
  field that a flag is bound to.
\<close>

definition NewUpdateCommand :: "'w config_Data \<Rightarrow> manifest_File \<Rightarrow> 'w UpdateCommand" where
  "NewUpdateCommand globals file =
     \<lparr> Globals = globals,
       manifest = \<lparr> File = file, Flag = \<lparr> manifest_Flag.ServiceID = [] \<rparr> \<rparr>,
       EndpointName = [],
       Version = 0,
       NewName = \<lparr> Valid = False, Value = [] \<rparr>,
       Bucket = \<lparr> Valid = False, Value = [] \<rparr>,
       User = \<lparr> Valid = False, Value = [] \<rparr>,
       SecretKey = \<lparr> Valid = False, Value = [] \<rparr>,
       Path = \<lparr> Valid = False, Value = [] \<rparr>,
       Period = \<lparr> Valid = False, Value = 0 \<rparr>,
       FormatVersion = \<lparr> Valid = False, Value = 0 \<rparr>,
       GzipLevel = \<lparr> Valid = False, Value = 0 \<rparr>,
       Format = \<lparr> Valid = False, Value = [] \<rparr>,
       ResponseCondition = \<lparr> Valid = False, Value = [] \<rparr>,
       TimestampFormat = \<lparr> Valid = False, Value = [] \<rparr>,
       MessageType = \<lparr> Valid = False, Value = [] \<rparr>,
       Placement = \<lparr> Valid = False, Value = [] \<rparr> \<rparr>"

text \<open>
  What giving a flag does to the command: the value is stored in the variable the flag
  is bound to (lines 47 to 63), and for the thirteen optional flags the action \<open>Set\<close> of
  the wrapper runs, which marks it \<open>Valid\<close>.
\<close>

fun set_flag :: "flag \<Rightarrow> 'w UpdateCommand \<Rightarrow> 'w UpdateCommand" where
  "set_flag (Flag_service_id v) c =
     c\<lparr>manifest := (manifest c)\<lparr>Flag := (Flag (manifest c))\<lparr>manifest_Flag.ServiceID := v\<rparr>\<rparr>\<rparr>"
| "set_flag (Flag_version v) c = c\<lparr>UpdateCommand.Version := v\<rparr>"
| "set_flag (Flag_name v) c = c\<lparr>EndpointName := v\<rparr>"
| "set_flag (Flag_new_name v) c = c\<lparr>UpdateCommand.NewName := \<lparr> Valid = True, Value = v \<rparr>\<rparr>"
| "set_flag (Flag_bucket v) c = c\<lparr>UpdateCommand.Bucket := \<lparr> Valid = True, Value = v \<rparr>\<rparr>"
| "set_flag (Flag_user v) c = c\<lparr>UpdateCommand.User := \<lparr> Valid = True, Value = v \<rparr>\<rparr>"
| "set_flag (Flag_secret_key v) c = c\<lparr>UpdateCommand.SecretKey := \<lparr> Valid = True, Value = v \<rparr>\<rparr>"
| "set_flag (Flag_path v) c = c\<lparr>UpdateCommand.Path := \<lparr> Valid = True, Value = v \<rparr>\<rparr>"
| "set_flag (Flag_period v) c = c\<lparr>UpdateCommand.Period := \<lparr> Valid = True, Value = v \<rparr>\<rparr>"
| "set_flag (Flag_format_version v) c = c\<lparr>UpdateCommand.FormatVersion := \<lparr> Valid = True, Value = v \<rparr>\<rparr>"
| "set_flag (Flag_gzip_level v) c = c\<lparr>UpdateCommand.GzipLevel := \<lparr> Valid = True, Value = v \<rparr>\<rparr>"
| "set_flag (Flag_format v) c = c\<lparr>UpdateCommand.Format := \<lparr> Valid = True, Value = v \<rparr>\<rparr>"
| "set_flag (Flag_response_condition v) c = c\<lparr>UpdateCommand.ResponseCondition := \<lparr> Valid = True, Value = v \<rparr>\<rparr>"
| "set_flag (Flag_timestamp_format v) c = c\<lparr>UpdateCommand.TimestampFormat := \<lparr> Valid = True, Value = v \<rparr>\<rparr>"
| "set_flag (Flag_message_type v) c = c\<lparr>UpdateCommand.MessageType := \<lparr> Valid = True, Value = v \<rparr>\<rparr>"
| "set_flag (Flag_placement v) c = c\<lparr>UpdateCommand.Placement := \<lparr> Valid = True, Value = v \<rparr>\<rparr>"

text \<open>
  The flag parser is a library outside the repository. It is modelled as far as
  \<open>NewUpdateCommand\<close> uses it: a required flag that the command line does not give is an
  error, so is a flag given twice (none of the flags is cumulative), and otherwise every
  flag given is stored. \<open>Required()\<close> asks that the flag be given; it does not look at the
  value.
\<close>

datatype parse_error = RequiredFlagNotProvided string | FlagRepeated

definition Parse :: "'w UpdateCommand \<Rightarrow> flag list \<Rightarrow> parse_error + 'w UpdateCommand" where
  "Parse c args =
     (case find (\<lambda>n. n \<notin> set (map name_of args)) required_flags of
        Some n \<Rightarrow> Inl (RequiredFlagNotProvided n)
      | None \<Rightarrow>
          if \<not> distinct (map name_of args) then Inl FlagRepeated
          else Inr (fold set_flag args c))"

subsection \<open>createInput\<close>

text \<open>
  The function follows the source line by line: the service ID is resolved, the stored
  object is fetched, the input is built from it, and thirteen conditionals overwrite
  the fields whose flag was given. An error return is \<open>Inl\<close>.
\<close>

definition createInput :: "'w UpdateCommand \<Rightarrow> 'w net \<Rightarrow> (error + UpdateGCSInput) \<times> 'w net" where
  "createInput c s =
     (case ServiceID (manifest c) of (serviceID, source) \<Rightarrow>
        if source = SourceUndefined then (Inl ErrNoServiceID, s)
        else
          (case call_GetGCS (Client (Globals c))
                  \<lparr> GetGCSInput.Service = serviceID,
                    Name = EndpointName c,
                    Version = UpdateCommand.Version c \<rparr> s of
             (Inl err, s') \<Rightarrow> (Inl err, s')
           | (Inr gcs, s') \<Rightarrow>
               (let input = \<lparr> UpdateGCSInput.Service = GCS.ServiceID gcs,
                               Version = GCS.Version gcs,
                               Name = GCS.Name gcs,
                               NewName = GCS.Name gcs,
                               Bucket = GCS.Bucket gcs,
                               User = GCS.User gcs,
                               SecretKey = GCS.SecretKey gcs,
                               Path = GCS.Path gcs,
                               Period = GCS.Period gcs,
                               FormatVersion = GCS.FormatVersion gcs,
                               GzipLevel = GCS.GzipLevel gcs,
                               Format = GCS.Format gcs,
                               MessageType = GCS.MessageType gcs,
                               ResponseCondition = GCS.ResponseCondition gcs,
                               TimestampFormat = GCS.TimestampFormat gcs,
                               Placement = GCS.Placement gcs \<rparr>;
                    input = (if Valid (UpdateCommand.NewName c)
                             then input\<lparr>UpdateGCSInput.NewName := Value (UpdateCommand.NewName c)\<rparr>
                             else input);
                    input = (if Valid (UpdateCommand.Bucket c)
                             then input\<lparr>UpdateGCSInput.Bucket := Value (UpdateCommand.Bucket c)\<rparr>
                             else input);
                    input = (if Valid (UpdateCommand.User c)
                             then input\<lparr>UpdateGCSInput.User := Value (UpdateCommand.User c)\<rparr>
                             else input);
                    input = (if Valid (UpdateCommand.SecretKey c)
                             then input\<lparr>UpdateGCSInput.SecretKey := Value (UpdateCommand.SecretKey c)\<rparr>
                             else input);
                    input = (if Valid (UpdateCommand.Path c)
                             then input\<lparr>UpdateGCSInput.Path := Value (UpdateCommand.Path c)\<rparr>
                             else input);
                    input = (if Valid (UpdateCommand.Period c)
                             then input\<lparr>UpdateGCSInput.Period := Value (UpdateCommand.Period c)\<rparr>
                             else input);
                    input = (if Valid (UpdateCommand.FormatVersion c)
                             then input\<lparr>UpdateGCSInput.FormatVersion := Value (UpdateCommand.FormatVersion c)\<rparr>
                             else input);
                    input = (if Valid (UpdateCommand.GzipLevel c)
                             then input\<lparr>UpdateGCSInput.GzipLevel := Value (UpdateCommand.GzipLevel c)\<rparr>
                             else input);
                    input = (if Valid (UpdateCommand.Format c)
                             then input\<lparr>UpdateGCSInput.Format := Value (UpdateCommand.Format c)\<rparr>
                             else input);
                    input = (if Valid (UpdateCommand.ResponseCondition c)
                             then input\<lparr>UpdateGCSInput.ResponseCondition := Value (UpdateCommand.ResponseCondition c)\<rparr>
                             else input);
                    input = (if Valid (UpdateCommand.TimestampFormat c)
                             then input\<lparr>UpdateGCSInput.TimestampFormat := Value (UpdateCommand.TimestampFormat c)\<rparr>
                             else input);
                    input = (if Valid (UpdateCommand.MessageType c)
                             then input\<lparr>UpdateGCSInput.MessageType := Value (UpdateCommand.MessageType c)\<rparr>
                             else input);
                    input = (if Valid (UpdateCommand.Placement c)
                             then input\<lparr>UpdateGCSInput.Placement := Value (UpdateCommand.Placement c)\<rparr>
                             else input)
                in (Inr input, s'))))"

text \<open>
  Two names used to state what \<open>createInput\<close> does. \<open>get_request\<close> is the input of
  the \<open>GetGCS\<close> call (lines 75 to 79); \<open>merged\<close> is the closed form of the input built
  in lines 84 to 156. Lemma \<open>createInput_eq\<close> below proves that they are what the
  function computes.
\<close>

definition get_request :: "'w UpdateCommand \<Rightarrow> GetGCSInput" where
  "get_request c =
     \<lparr> GetGCSInput.Service = fst (ServiceID (manifest c)),
       Name = EndpointName c,
       Version = UpdateCommand.Version c \<rparr>"

definition merged :: "'w UpdateCommand \<Rightarrow> GCS \<Rightarrow> UpdateGCSInput" where
  "merged c gcs =
     \<lparr> UpdateGCSInput.Service = GCS.ServiceID gcs,
       Version = GCS.Version gcs,
       Name = GCS.Name gcs,
       NewName = (if Valid (UpdateCommand.NewName c)
                  then Value (UpdateCommand.NewName c) else GCS.Name gcs),
       Bucket = (if Valid (UpdateCommand.Bucket c)
                 then Value (UpdateCommand.Bucket c) else GCS.Bucket gcs),
       User = (if Valid (UpdateCommand.User c)
               then Value (UpdateCommand.User c) else GCS.User gcs),
       SecretKey = (if Valid (UpdateCommand.SecretKey c)
                    then Value (UpdateCommand.SecretKey c) else GCS.SecretKey gcs),
       Path = (if Valid (UpdateCommand.Path c)
               then Value (UpdateCommand.Path c) else GCS.Path gcs),
       Period = (if Valid (UpdateCommand.Period c)
                 then Value (UpdateCommand.Period c) else GCS.Period gcs),
       FormatVersion = (if Valid (UpdateCommand.FormatVersion c)
                        then Value (UpdateCommand.FormatVersion c) else GCS.FormatVersion gcs),
       GzipLevel = (if Valid (UpdateCommand.GzipLevel c)
                    then Value (UpdateCommand.GzipLevel c) else GCS.GzipLevel gcs),
       Format = (if Valid (UpdateCommand.Format c)
                 then Value (UpdateCommand.Format c) else GCS.Format gcs),
       MessageType = (if Valid (UpdateCommand.MessageType c)
                      then Value (UpdateCommand.MessageType c) else GCS.MessageType gcs),
       ResponseCondition = (if Valid (UpdateCommand.ResponseCondition c)
                            then Value (UpdateCommand.ResponseCondition c)
                            else GCS.ResponseCondition gcs),
       TimestampFormat = (if Valid (UpdateCommand.TimestampFormat c)
                          then Value (UpdateCommand.TimestampFormat c)
                          else GCS.TimestampFormat gcs),
       Placement = (if Valid (UpdateCommand.Placement c)
                    then Value (UpdateCommand.Placement c) else GCS.Placement gcs) \<rparr>"

subsection \<open>Formatting the confirmation\<close>

text \<open>
  The operands of the one formatted message are strings and an \<open>int\<close>. Of the format
  verbs of Go's \<open>fmt\<close> the model has \<open>%s\<close> on a string, \<open>%d\<close> on an integer and \<open>%%\<close>;
  a format or an operand list outside this fragment (another verb, flags, a width, a
  missing, mistyped or surplus operand) gives \<open>None\<close>: the model says nothing about it.
\<close>

datatype arg = ArgString string | ArgInt int

definition digit :: "nat \<Rightarrow> char" where
  "digit d = ''0123456789'' ! d"

fun utoa :: "nat \<Rightarrow> string" where
  "utoa n = (if n < 10 then [digit n] else utoa (n div 10) @ [digit (n mod 10)])"

declare utoa.simps [simp del]

definition itoa :: "int \<Rightarrow> string" where
  "itoa i = (if i < 0 then CHR ''-'' # utoa (nat (- i)) else utoa (nat i))"

fun verb :: "char \<Rightarrow> arg \<Rightarrow> string option" where
  "verb v (ArgString x) = (if v = CHR ''s'' then Some x else None)"
| "verb v (ArgInt i) = (if v = CHR ''d'' then Some (itoa i) else None)"

fun Sprintf :: "string \<Rightarrow> arg list \<Rightarrow> string option" where
  "Sprintf [] args = (if args = [] then Some [] else None)"
| "Sprintf (c # cs) args =
     (if c \<noteq> CHR ''%'' then map_option ((#) c) (Sprintf cs args)
      else (case cs of
              [] \<Rightarrow> None
            | v # rest \<Rightarrow>
                if v = CHR ''%'' then map_option ((#) v) (Sprintf rest args)
                else (case args of
                        [] \<Rightarrow> None
                      | a # as \<Rightarrow>
                          (case verb v a of
                             None \<Rightarrow> None
                           | Some x \<Rightarrow> map_option ((@) x) (Sprintf rest as)))))"

text \<open>
  Modelled from the spec: \<open>text.Success\<close> (package \<open>text\<close> is not among the sources). A
  successful call "produces a formatted confirmation message": the format with its
  operands filled in is written to the output, after what the output already holds.
  The output is \<open>None\<close> when the format is outside the fragment of \<open>Sprintf\<close>.
\<close>

definition Success :: "string \<Rightarrow> string \<Rightarrow> arg list \<Rightarrow> string option" where
  "Success out format args = map_option ((@) out) (Sprintf format args)"

subsection \<open>Exec\<close>

text \<open>
  \<open>Exec\<close> returns the error (\<open>None\<close> is Go's \<open>nil\<close>) and the contents of the writer
  \<open>out\<close>; the reader \<open>in\<close> is not used.
\<close>

definition Exec :: "'w UpdateCommand \<Rightarrow> string \<Rightarrow> string \<Rightarrow> 'w net \<Rightarrow> (error option \<times> string option) \<times> 'w net" where
  "Exec c inp out s =
     (case createInput c s of
        (Inl err, s') \<Rightarrow> ((Some err, Some out), s')
      | (Inr input, s') \<Rightarrow>
          (case call_UpdateGCS (Client (Globals c)) input s' of
             (Inl err, s'') \<Rightarrow> ((Some err, Some out), s'')
           | (Inr gcs, s'') \<Rightarrow>
               ((None,
                 Success out ''Updated GCS logging endpoint %s (service %s version %d)''
                   [ArgString (GCS.Name gcs), ArgString (GCS.ServiceID gcs), ArgInt (sint (GCS.Version gcs))]),
                s'')))"

text \<open>
  Modelled from the spec: the exit code of the process, set by the program's entry
  point (not among the sources) from what \<open>Exec\<close> returns: "0 on success, non-zero on
  any API or validation error".
\<close>

definition exit_code :: "error option \<Rightarrow> nat" where
  "exit_code r = (case r of None \<Rightarrow> 0 | Some err \<Rightarrow> 1)"

subsection \<open>A remote platform to run the command against\<close>

text \<open>
  A small stand-in for the remote platform, used to run the command on concrete
  inputs: its state is the list of stored endpoints; \<open>GetGCS\<close> looks one up by service,
  version and name, \<open>UpdateGCS\<close> replaces it by the object of the request, stored under
  the new name.
\<close>

definition same_endpoint :: "string \<Rightarrow> go_int \<Rightarrow> string \<Rightarrow> GCS \<Rightarrow> bool" where
  "same_endpoint sid v n g = (GCS.ServiceID g = sid \<and> GCS.Version g = v \<and> GCS.Name g = n)"

definition updated :: "UpdateGCSInput \<Rightarrow> GCS" where
  "updated i =
     \<lparr> GCS.ServiceID = UpdateGCSInput.Service i,
       Version = UpdateGCSInput.Version i,
       Name = UpdateGCSInput.NewName i,
       Bucket = UpdateGCSInput.Bucket i,
       User = UpdateGCSInput.User i,
       SecretKey = UpdateGCSInput.SecretKey i,
       Path = UpdateGCSInput.Path i,
       Period = UpdateGCSInput.Period i,
       FormatVersion = UpdateGCSInput.FormatVersion i,
       GzipLevel = UpdateGCSInput.GzipLevel i,
       Format = UpdateGCSInput.Format i,
       MessageType = UpdateGCSInput.MessageType i,
       ResponseCondition = UpdateGCSInput.ResponseCondition i,
       TimestampFormat = UpdateGCSInput.TimestampFormat i,
       Placement = UpdateGCSInput.Placement i \<rparr>"

definition store_client :: "GCS list Client" where
  "store_client =
     \<lparr> GetGCS = (\<lambda>i w.
         case find (same_endpoint (GetGCSInput.Service i) (GetGCSInput.Version i) (GetGCSInput.Name i)) w of
           None \<Rightarrow> (Inl (APIError ''404 Not Found''), w)
         | Some g \<Rightarrow> (Inr g, w)),
       UpdateGCS = (\<lambda>i w.
         case find (same_endpoint (UpdateGCSInput.Service i) (UpdateGCSInput.Version i) (UpdateGCSInput.Name i)) w of
           None \<Rightarrow> (Inl (APIError ''404 Not Found''), w)
         | Some g \<Rightarrow>
             (Inr (updated i),
              map (\<lambda>h. if same_endpoint (UpdateGCSInput.Service i) (UpdateGCSInput.Version i)
                              (UpdateGCSInput.Name i) h
                        then updated i else h) w)) \<rparr>"

definition stored_gcs :: GCS where
  "stored_gcs =
     \<lparr> GCS.ServiceID = ''svc1'', Version = 2, Name = ''logs'', Bucket = ''bkt'',
       User = ''u@example.com'', SecretKey = ''key'', Path = ''/'', Period = 3600,
       FormatVersion = 2, GzipLevel = 0, Format = ''%h'', MessageType = ''classic'',
       ResponseCondition = [], TimestampFormat = ''%Y'', Placement = ''none'' \<rparr>"

definition unset :: "'a \<Rightarrow> 'a Optional" where
  "unset z = \<lparr> Valid = False, Value = z \<rparr>"

definition given :: "'a \<Rightarrow> 'a Optional" where
  "given x = \<lparr> Valid = True, Value = x \<rparr>"

text \<open>
  A client that answers every \<open>GetGCS\<close> with \<open>r1\<close> and every \<open>UpdateGCS\<close> with \<open>r2\<close>
  and leaves the platform as it is.
\<close>

definition canned_client :: "error + GCS \<Rightarrow> error + GCS \<Rightarrow> unit Client" where
  "canned_client r1 r2 = \<lparr> GetGCS = (\<lambda>i w. (r1, w)), UpdateGCS = (\<lambda>i w. (r2, w)) \<rparr>"

text \<open>
  \<open>update --service-id svc1 --version 2 --name logs --new-name logs2 --period 60
  --gzip-level 9\<close>, with parameters for the client, the service ID of the flag (empty
  when the flag is not given), the service ID of the manifest file and the name.
\<close>

definition cmd_with :: "'w Client \<Rightarrow> string \<Rightarrow> string \<Rightarrow> string \<Rightarrow> 'w UpdateCommand" where
  "cmd_with cl flag_id file_id name =
     \<lparr> Globals = \<lparr> Client = cl \<rparr>,
       manifest = \<lparr> File = \<lparr> manifest_File.ServiceID = file_id \<rparr>,
                    Flag = \<lparr> manifest_Flag.ServiceID = flag_id \<rparr> \<rparr>,
       EndpointName = name,
       Version = 2,
       NewName = given ''logs2'',
       Bucket = unset [],
       User = unset [],
       SecretKey = unset [],
       Path = unset [],
       Period = given 60,
       FormatVersion = unset 0,
       GzipLevel = given 9,
       Format = unset [],
       ResponseCondition = unset [],
       TimestampFormat = unset [],
       MessageType = unset [],
       Placement = unset [] \<rparr>"

definition cmd :: "GCS list UpdateCommand" where
  "cmd = cmd_with store_client ''svc1'' [] ''logs''"

text \<open>
  The command line of \<open>cmd\<close>; the command line \<open>--service-id svc1 --version 0 --name ""\<close>,
  which gives both required flags, and the command it is parsed to.
\<close>

definition blank_args :: "flag list" where
  "blank_args = [Flag_service_id ''svc1'', Flag_version 0, Flag_name []]"

definition cmd_args :: "flag list" where
  "cmd_args = [Flag_service_id ''svc1'', Flag_version 2, Flag_name ''logs'', Flag_new_name ''logs2'',
               Flag_period 60, Flag_gzip_level 9]"


definition blank_cmd :: "GCS list UpdateCommand" where
  "blank_cmd =
     fold set_flag blank_args
       (NewUpdateCommand \<lparr> Client = store_client \<rparr> \<lparr> manifest_File.ServiceID = [] \<rparr>)"

text \<open>
  An object as the platform might report it after an update, differing from the stored
  one and from every flag in its name, service ID and version; and the command line of
  \<open>cmd_with\<close> against the client that answers \<open>GetGCS\<close> with the stored object and
  \<open>UpdateGCS\<close> with this one.
\<close>

definition api_gcs :: GCS where
  "api_gcs = stored_gcs\<lparr> GCS.ServiceID := ''svc9'', GCS.Version := 7, GCS.Name := ''renamed'' \<rparr>"

definition canned_cmd :: "string \<Rightarrow> string \<Rightarrow> string \<Rightarrow> unit UpdateCommand" where
  "canned_cmd flag_id file_id name =
     cmd_with (canned_client (Inr stored_gcs) (Inr api_gcs)) flag_id file_id name"

section \<open>Properties\<close>

subsection \<open>What createInput and Exec compute\<close>

text \<open>
  Overwriting a field under a condition is an update with a conditional value; with
  this the thirteen conditionals of \<open>createInput\<close> collapse without a case split.
\<close>

lemma overwrite_if:
  "(if b then r\<lparr>UpdateGCSInput.NewName := v1\<rparr> else r) =
     r\<lparr>UpdateGCSInput.NewName := (if b then v1 else UpdateGCSInput.NewName r)\<rparr>"
  "(if b then r\<lparr>UpdateGCSInput.Bucket := v1\<rparr> else r) =
     r\<lparr>UpdateGCSInput.Bucket := (if b then v1 else UpdateGCSInput.Bucket r)\<rparr>"
  "(if b then r\<lparr>UpdateGCSInput.User := v1\<rparr> else r) =
     r\<lparr>UpdateGCSInput.User := (if b then v1 else UpdateGCSInput.User r)\<rparr>"
  "(if b then r\<lparr>UpdateGCSInput.SecretKey := v1\<rparr> else r) =
     r\<lparr>UpdateGCSInput.SecretKey := (if b then v1 else UpdateGCSInput.SecretKey r)\<rparr>"
  "(if b then r\<lparr>UpdateGCSInput.Path := v1\<rparr> else r) =
     r\<lparr>UpdateGCSInput.Path := (if b then v1 else UpdateGCSInput.Path r)\<rparr>"
  "(if b then r\<lparr>UpdateGCSInput.Period := v2\<rparr> else r) =
     r\<lparr>UpdateGCSInput.Period := (if b then v2 else UpdateGCSInput.Period r)\<rparr>"
  "(if b then r\<lparr>UpdateGCSInput.FormatVersion := v2\<rparr> else r) =
     r\<lparr>UpdateGCSInput.FormatVersion := (if b then v2 else UpdateGCSInput.FormatVersion r)\<rparr>"
  "(if b then r\<lparr>UpdateGCSInput.GzipLevel := v3\<rparr> else r) =
     r\<lparr>UpdateGCSInput.GzipLevel := (if b then v3 else UpdateGCSInput.GzipLevel r)\<rparr>"
  "(if b then r\<lparr>UpdateGCSInput.Format := v1\<rparr> else r) =
     r\<lparr>UpdateGCSInput.Format := (if b then v1 else UpdateGCSInput.Format r)\<rparr>"
  "(if b then r\<lparr>UpdateGCSInput.ResponseCondition := v1\<rparr> else r) =
     r\<lparr>UpdateGCSInput.ResponseCondition := (if b then v1 else UpdateGCSInput.ResponseCondition r)\<rparr>"
  "(if b then r\<lparr>UpdateGCSInput.TimestampFormat := v1\<rparr> else r) =
     r\<lparr>UpdateGCSInput.TimestampFormat := (if b then v1 else UpdateGCSInput.TimestampFormat r)\<rparr>"
  "(if b then r\<lparr>UpdateGCSInput.MessageType := v1\<rparr> else r) =
     r\<lparr>UpdateGCSInput.MessageType := (if b then v1 else UpdateGCSInput.MessageType r)\<rparr>"
  "(if b then r\<lparr>UpdateGCSInput.Placement := v1\<rparr> else r) =
     r\<lparr>UpdateGCSInput.Placement := (if b then v1 else UpdateGCSInput.Placement r)\<rparr>"
  by simp_all

lemma createInput_eq:
  "createInput c s =
     (if snd (ServiceID (manifest c)) = SourceUndefined then (Inl ErrNoServiceID, s)
      else (case GetGCS (Client (Globals c)) (get_request c) (snd s) of
              (r, w') \<Rightarrow> (case r of Inl err \<Rightarrow> Inl err | Inr gcs \<Rightarrow> Inr (merged c gcs),
                           (fst s @ [CallGetGCS (get_request c)], w'))))"
proof -
  obtain sid src where sv: "ServiceID (manifest c) = (sid, src)"
    by (cases "ServiceID (manifest c)")
  obtain r w' where g: "GetGCS (Client (Globals c)) (get_request c) (snd s) = (r, w')"
    by (cases "GetGCS (Client (Globals c)) (get_request c) (snd s)")
  have gr: "get_request c =
      \<lparr> GetGCSInput.Service = sid, Name = EndpointName c, Version = UpdateCommand.Version c \<rparr>"
    by (simp add: get_request_def sv)
  show ?thesis
  proof (cases "src = SourceUndefined")
    case True
    with sv show ?thesis by (simp add: createInput_def)
  next
    case False
    show ?thesis
    proof (cases r)
      case (Inl err)
      with sv False g[unfolded gr] show ?thesis
        by (simp add: createInput_def call_GetGCS_def gr)
    next
      case (Inr gcs)
      with sv False g[unfolded gr] show ?thesis
        by (simp add: createInput_def call_GetGCS_def gr merged_def overwrite_if Let_def
            split del: if_split cong: if_cong)
    qed
  qed
qed

lemma Exec_eq:
  "Exec c inp out s =
     (if snd (ServiceID (manifest c)) = SourceUndefined then ((Some ErrNoServiceID, Some out), s)
      else (case GetGCS (Client (Globals c)) (get_request c) (snd s) of
              (Inl err, w1) \<Rightarrow> ((Some err, Some out), (fst s @ [CallGetGCS (get_request c)], w1))
            | (Inr gcs, w1) \<Rightarrow>
                (case UpdateGCS (Client (Globals c)) (merged c gcs) w1 of
                   (Inl err, w2) \<Rightarrow>
                     ((Some err, Some out),
                      (fst s @ [CallGetGCS (get_request c), CallUpdateGCS (merged c gcs)], w2))
                 | (Inr gcs', w2) \<Rightarrow>
                     ((None,
                       Success out ''Updated GCS logging endpoint %s (service %s version %d)''
                         [ArgString (GCS.Name gcs'), ArgString (GCS.ServiceID gcs'),
                          ArgInt (sint (GCS.Version gcs'))]),
                      (fst s @ [CallGetGCS (get_request c), CallUpdateGCS (merged c gcs)], w2)))))"
  by (simp add: Exec_def createInput_eq call_UpdateGCS_def split: prod.split sum.split)

lemma Sprintf_message:
  "Sprintf ''Updated GCS logging endpoint %s (service %s version %d)''
     [ArgString n, ArgString i, ArgInt v] =
   Some (''Updated GCS logging endpoint '' @ n @ '' (service '' @ i @ '' version '' @ itoa v @ '')'')"
  by (simp add: option.map_comp comp_def)

subsection \<open>Runs of the command on the stand-in platform\<close>

lemma GetGCS_cmd:
  "GetGCS (Client (Globals cmd)) (get_request cmd) (snd ([], [stored_gcs])) =
     (Inr stored_gcs, [stored_gcs])"
  by (simp add: cmd_def cmd_with_def ServiceID_def get_request_def
        store_client_def same_endpoint_def stored_gcs_def)

lemma run_cmd: "createInput cmd ([], [stored_gcs]) =
     (Inr (merged cmd stored_gcs), ([CallGetGCS (get_request cmd)], [stored_gcs]))"
  by (simp add: createInput_eq cmd_def cmd_with_def ServiceID_def get_request_def
        store_client_def same_endpoint_def stored_gcs_def)

subsection \<open>The merge of the optional flags\<close>

text \<open>
  C1. Whenever \<open>createInput\<close> returns an input, \<open>GetGCS\<close> was answered with an object,
  and each of the thirteen optional fields of the input (new-name, bucket, user,
  secret-key, path, period, format-version, gzip-level, format, response-condition,
  timestamp-format, message-type, placement) holds the value of the flag when the
  flag's wrapper is marked present, and the value of that field in the object that
  \<open>GetGCS\<close> returned when it is not. For new-name the fetched value is the object's name.
\<close>

theorem createInput_merges_optional_flags:
  assumes "createInput c s = (Inr input, s')"
  shows "\<exists>gcs w'. GetGCS (Client (Globals c)) (get_request c) (snd s) = (Inr gcs, w')
     \<and> UpdateGCSInput.NewName input =
         (if Valid (UpdateCommand.NewName c) then Value (UpdateCommand.NewName c) else GCS.Name gcs)
     \<and> UpdateGCSInput.Bucket input =
         (if Valid (UpdateCommand.Bucket c) then Value (UpdateCommand.Bucket c) else GCS.Bucket gcs)
     \<and> UpdateGCSInput.User input =
         (if Valid (UpdateCommand.User c) then Value (UpdateCommand.User c) else GCS.User gcs)
     \<and> UpdateGCSInput.SecretKey input =
         (if Valid (UpdateCommand.SecretKey c) then Value (UpdateCommand.SecretKey c) else GCS.SecretKey gcs)
     \<and> UpdateGCSInput.Path input =
         (if Valid (UpdateCommand.Path c) then Value (UpdateCommand.Path c) else GCS.Path gcs)
     \<and> UpdateGCSInput.Period input =
         (if Valid (UpdateCommand.Period c) then Value (UpdateCommand.Period c) else GCS.Period gcs)
     \<and> UpdateGCSInput.FormatVersion input =
         (if Valid (UpdateCommand.FormatVersion c) then Value (UpdateCommand.FormatVersion c)
          else GCS.FormatVersion gcs)
     \<and> UpdateGCSInput.GzipLevel input =
         (if Valid (UpdateCommand.GzipLevel c) then Value (UpdateCommand.GzipLevel c) else GCS.GzipLevel gcs)
     \<and> UpdateGCSInput.Format input =
         (if Valid (UpdateCommand.Format c) then Value (UpdateCommand.Format c) else GCS.Format gcs)
     \<and> UpdateGCSInput.ResponseCondition input =
         (if Valid (UpdateCommand.ResponseCondition c) then Value (UpdateCommand.ResponseCondition c)
          else GCS.ResponseCondition gcs)
     \<and> UpdateGCSInput.TimestampFormat input =
         (if Valid (UpdateCommand.TimestampFormat c) then Value (UpdateCommand.TimestampFormat c)
          else GCS.TimestampFormat gcs)
     \<and> UpdateGCSInput.MessageType input =
         (if Valid (UpdateCommand.MessageType c) then Value (UpdateCommand.MessageType c)
          else GCS.MessageType gcs)
     \<and> UpdateGCSInput.Placement input =
         (if Valid (UpdateCommand.Placement c) then Value (UpdateCommand.Placement c)
          else GCS.Placement gcs)"
proof -
  obtain r w' where g: "GetGCS (Client (Globals c)) (get_request c) (snd s) = (r, w')"
    by (cases "GetGCS (Client (Globals c)) (get_request c) (snd s)")
  from assms have src: "snd (ServiceID (manifest c)) \<noteq> SourceUndefined"
    by (cases "snd (ServiceID (manifest c)) = SourceUndefined") (simp_all add: createInput_eq)
  from assms src g obtain gcs where r: "r = Inr gcs" and i: "input = merged c gcs"
    by (cases r) (simp_all add: createInput_eq)
  show ?thesis
    unfolding g r i merged_def
    by (intro exI conjI) (simp_all split del: if_split)
qed

text \<open>
  The run of \<open>cmd\<close> (new-name, period and gzip-level given) against the stored
  endpoint: the three given fields hold the flags' values, the others the stored ones.
\<close>

theorem createInput_merges_optional_flags_witness:
  "\<exists>input s'. createInput cmd ([], [stored_gcs]) = (Inr input, s')
     \<and> UpdateGCSInput.NewName input = ''logs2''
     \<and> UpdateGCSInput.Bucket input = ''bkt''
     \<and> UpdateGCSInput.Period input = 60
     \<and> UpdateGCSInput.FormatVersion input = 2
     \<and> UpdateGCSInput.GzipLevel input = 9
     \<and> UpdateGCSInput.Placement input = ''none''"
proof -
  from createInput_merges_optional_flags [OF run_cmd, unfolded GetGCS_cmd] have
    "UpdateGCSInput.NewName (merged cmd stored_gcs) = ''logs2''
     \<and> UpdateGCSInput.Bucket (merged cmd stored_gcs) = ''bkt''
     \<and> UpdateGCSInput.Period (merged cmd stored_gcs) = 60
     \<and> UpdateGCSInput.FormatVersion (merged cmd stored_gcs) = 2
     \<and> UpdateGCSInput.GzipLevel (merged cmd stored_gcs) = 9
     \<and> UpdateGCSInput.Placement (merged cmd stored_gcs) = ''none''"
    by (simp add: cmd_def cmd_with_def given_def unset_def stored_gcs_def)
  with run_cmd show ?thesis by blast
qed

subsection \<open>No service ID\<close>

text \<open>
  C2. When no service ID is resolved (the source of the manifest's service ID is
  undefined), \<open>createInput\<close> returns \<open>ErrNoServiceID\<close> and leaves the state as it was:
  the log of client calls has no new entry, so neither \<open>GetGCS\<close> nor \<open>UpdateGCS\<close> was
  invoked. \<open>Exec\<close> returns the same error, writes nothing and makes no call either.
\<close>

theorem createInput_no_service_id:
  assumes "snd (ServiceID (manifest c)) = SourceUndefined"
  shows "createInput c s = (Inl ErrNoServiceID, s)
     \<and> Exec c inp out s = ((Some ErrNoServiceID, Some out), s)
     \<and> fst (snd (Exec c inp out s)) = fst s"
  using assms by (simp add: createInput_eq Exec_eq)

text \<open>Neither the flag nor the manifest file gives a service ID.\<close>

theorem createInput_no_service_id_witness:
  "snd (ServiceID (manifest (cmd_with store_client [] [] ''logs''))) = SourceUndefined
   \<and> createInput (cmd_with store_client [] [] ''logs'') ([], [stored_gcs]) =
       (Inl ErrNoServiceID, ([], [stored_gcs]))
   \<and> Exec (cmd_with store_client [] [] ''logs'') [] [] ([], [stored_gcs]) =
       ((Some ErrNoServiceID, Some []), ([], [stored_gcs]))"
proof -
  have h: "snd (ServiceID (manifest (cmd_with store_client [] [] ''logs''))) = SourceUndefined"
    by (simp add: cmd_with_def ServiceID_def)
  from createInput_no_service_id [OF h, of "([], [stored_gcs])" "[]" "[]"] h
  show ?thesis by simp
qed

subsection \<open>What Exec returns\<close>

text \<open>
  C3. \<open>Exec\<close> returns \<open>nil\<close> exactly when the service ID is resolved and both client
  calls succeed. Otherwise it returns the first error, as it is: \<open>ErrNoServiceID\<close> with no
  call made, or the error \<open>GetGCS\<close> returned with that one call made, or the error
  \<open>UpdateGCS\<close> returned after one call of each; no call is made twice. The exit code
  is 0 exactly when \<open>Exec\<close> returned \<open>nil\<close>.
\<close>

theorem Exec_returns_first_error:
  assumes "Exec c inp out s = ((r, out'), s')"
  shows "(r = None \<longleftrightarrow>
            (snd (ServiceID (manifest c)) \<noteq> SourceUndefined
             \<and> (\<exists>gcs w1 gcs' w2.
                   GetGCS (Client (Globals c)) (get_request c) (snd s) = (Inr gcs, w1)
                   \<and> UpdateGCS (Client (Globals c)) (merged c gcs) w1 = (Inr gcs', w2))))
     \<and> ((r = None
          \<and> (\<exists>gcs w1 gcs' w2.
                GetGCS (Client (Globals c)) (get_request c) (snd s) = (Inr gcs, w1)
                \<and> UpdateGCS (Client (Globals c)) (merged c gcs) w1 = (Inr gcs', w2)
                \<and> s' = (fst s @ [CallGetGCS (get_request c), CallUpdateGCS (merged c gcs)], w2)))
        \<or> (r = Some ErrNoServiceID \<and> snd (ServiceID (manifest c)) = SourceUndefined \<and> s' = s)
        \<or> (\<exists>err w1.
              r = Some err
              \<and> GetGCS (Client (Globals c)) (get_request c) (snd s) = (Inl err, w1)
              \<and> s' = (fst s @ [CallGetGCS (get_request c)], w1))
        \<or> (\<exists>err gcs w1 w2.
              r = Some err
              \<and> GetGCS (Client (Globals c)) (get_request c) (snd s) = (Inr gcs, w1)
              \<and> UpdateGCS (Client (Globals c)) (merged c gcs) w1 = (Inl err, w2)
              \<and> s' = (fst s @ [CallGetGCS (get_request c), CallUpdateGCS (merged c gcs)], w2)))
     \<and> (exit_code r = 0 \<longleftrightarrow> r = None)"
proof -
  obtain r1 w1 where g: "GetGCS (Client (Globals c)) (get_request c) (snd s) = (r1, w1)"
    by (cases "GetGCS (Client (Globals c)) (get_request c) (snd s)")
  have ex: "exit_code r = 0 \<longleftrightarrow> r = None"
    by (cases r) (simp_all add: exit_code_def)
  show ?thesis
  proof (cases "snd (ServiceID (manifest c)) = SourceUndefined")
    case True
    with assms ex show ?thesis by (auto simp: Exec_eq)
  next
    case False
    show ?thesis
    proof (cases r1)
      case (Inl err)
      with assms False g ex show ?thesis by (auto simp: Exec_eq)
    next
      case (Inr gcs)
      obtain r2 w2 where u: "UpdateGCS (Client (Globals c)) (merged c gcs) w1 = (r2, w2)"
        by (cases "UpdateGCS (Client (Globals c)) (merged c gcs) w1")
      show ?thesis
      proof (cases r2)
        case (Inl err)
        with assms False g Inr u ex show ?thesis by (auto simp: Exec_eq)
      next
        case (Inr gcs')
        with assms False g \<open>r1 = Inr gcs\<close> u ex show ?thesis by (auto simp: Exec_eq)
      qed
    qed
  qed
qed


text \<open>Two runs: the update of the stored endpoint, and an update of a name that is not stored.\<close>

lemma run_Exec_cmd:
  "Exec cmd [] [] ([], [stored_gcs]) =
     ((None, Some ''Updated GCS logging endpoint logs2 (service svc1 version 2)''),
      ([CallGetGCS (get_request cmd), CallUpdateGCS (merged cmd stored_gcs)],
       [updated (merged cmd stored_gcs)]))"
  by (simp add: Exec_eq cmd_def cmd_with_def ServiceID_def get_request_def merged_def
        store_client_def same_endpoint_def stored_gcs_def updated_def given_def unset_def
        Success_def Sprintf_message itoa_def utoa.simps digit_def)

lemma run_Exec_missing:
  "Exec (cmd_with store_client ''svc1'' [] ''nope'') [] [] ([], [stored_gcs]) =
     ((Some (APIError ''404 Not Found''), Some []),
      ([CallGetGCS \<lparr> GetGCSInput.Service = ''svc1'', Name = ''nope'', Version = 2 \<rparr>],
       [stored_gcs]))"
  by (simp add: Exec_eq cmd_with_def ServiceID_def get_request_def
        store_client_def same_endpoint_def stored_gcs_def)

text \<open>The endpoint is not stored: the error of \<open>GetGCS\<close> comes back, the exit code is not 0.\<close>

theorem Exec_returns_first_error_witness:
  "Exec (cmd_with store_client ''svc1'' [] ''nope'') [] [] ([], [stored_gcs]) =
     ((Some (APIError ''404 Not Found''), Some []),
      ([CallGetGCS \<lparr> GetGCSInput.Service = ''svc1'', Name = ''nope'', Version = 2 \<rparr>],
       [stored_gcs]))
   \<and> exit_code (Some (APIError ''404 Not Found'')) \<noteq> 0"
  using Exec_returns_first_error [OF run_Exec_missing] run_Exec_missing by simp

subsection \<open>The number of client calls\<close>

text \<open>
  C4 fails as stated: the successful update of the stored endpoint makes two client
  calls, \<open>GetGCS\<close> and then \<open>UpdateGCS\<close>: more than one request in one invocation.
\<close>

theorem Exec_two_calls_counterexample:
  "fst (snd (Exec cmd [] [] ([], [stored_gcs]))) =
     [CallGetGCS (get_request cmd), CallUpdateGCS (merged cmd stored_gcs)]
   \<and> \<not> length (fst (snd (Exec cmd [] [] ([], [stored_gcs])))) \<le> 1"
  by (simp add: run_Exec_cmd)

text \<open>
  C4, as amended. The client calls of an invocation are exactly these, in this order:
  none when no service ID is resolved; otherwise one \<open>GetGCS\<close>, followed by one
  \<open>UpdateGCS\<close> when \<open>GetGCS\<close> returned an object and by nothing when it returned an
  error. So an invocation makes at most two client calls and never a third.
\<close>

theorem Exec_at_most_two_calls:
  "fst (snd (Exec c inp out s)) =
     fst s @
       (if snd (ServiceID (manifest c)) = SourceUndefined then []
        else case fst (GetGCS (Client (Globals c)) (get_request c) (snd s)) of
               Inl err \<Rightarrow> [CallGetGCS (get_request c)]
             | Inr gcs \<Rightarrow> [CallGetGCS (get_request c), CallUpdateGCS (merged c gcs)])
   \<and> length (fst (snd (Exec c inp out s))) \<le> length (fst s) + 2"
  by (simp add: Exec_eq split: prod.split sum.split)

text \<open>No service ID, an endpoint that is not stored, and the update of the stored one.\<close>

theorem Exec_at_most_two_calls_witness:
  "fst (snd (Exec (cmd_with store_client [] [] ''logs'') [] [] ([], [stored_gcs]))) = []
   \<and> fst (snd (Exec (cmd_with store_client ''svc1'' [] ''nope'') [] [] ([], [stored_gcs]))) =
       [CallGetGCS \<lparr> GetGCSInput.Service = ''svc1'', Name = ''nope'', Version = 2 \<rparr>]
   \<and> fst (snd (Exec cmd [] [] ([], [stored_gcs]))) =
       [CallGetGCS \<lparr> GetGCSInput.Service = ''svc1'', Name = ''logs'', Version = 2 \<rparr>,
        CallUpdateGCS (merged cmd stored_gcs)]
   \<and> length (fst (snd (Exec cmd [] [] ([], [stored_gcs])))) \<le> 2"
  using Exec_at_most_two_calls [of "cmd_with store_client [] [] ''logs''" "[]" "[]" "([], [stored_gcs])"]
    Exec_at_most_two_calls [of "cmd_with store_client ''svc1'' [] ''nope''" "[]" "[]" "([], [stored_gcs])"]
    Exec_at_most_two_calls [of cmd "[]" "[]" "([], [stored_gcs])"]
  by (simp add: cmd_def cmd_with_def ServiceID_def get_request_def
        store_client_def same_endpoint_def stored_gcs_def)

subsection \<open>The confirmation message\<close>

lemma sublist_message:
  "sublist n (a @ n @ b @ i @ c @ v @ d)"
  "sublist i (a @ n @ b @ i @ c @ v @ d)"
  "sublist v (a @ n @ b @ i @ c @ v @ d)"
proof -
  show "sublist n (a @ n @ b @ i @ c @ v @ d)" by (rule sublist_appendI)
  have "sublist i ((a @ n @ b) @ i @ (c @ v @ d))" by (rule sublist_appendI)
  then show "sublist i (a @ n @ b @ i @ c @ v @ d)" by simp
  have "sublist v ((a @ n @ b @ i @ c) @ v @ d)" by (rule sublist_appendI)
  then show "sublist v (a @ n @ b @ i @ c @ v @ d)" by simp
qed

text \<open>
  C5. When \<open>createInput\<close> returns an input and \<open>UpdateGCS\<close> succeeds on it, \<open>Exec\<close> returns
  \<open>nil\<close> and appends to the output the formatted message, which contains the name, the
  service ID and the version number (in decimal) of the updated endpoint.
\<close>

theorem Exec_success_message:
  assumes "createInput c s = (Inr input, s1)"
    and "call_UpdateGCS (Client (Globals c)) input s1 = (Inr gcs, s2)"
  shows "\<exists>msg. Exec c inp out s = ((None, Some (out @ msg)), s2)
     \<and> msg = ''Updated GCS logging endpoint '' @ GCS.Name gcs @ '' (service '' @ GCS.ServiceID gcs
              @ '' version '' @ itoa (sint (GCS.Version gcs)) @ '')''
     \<and> sublist (GCS.Name gcs) msg
     \<and> sublist (GCS.ServiceID gcs) msg
     \<and> sublist (itoa (sint (GCS.Version gcs))) msg"
proof -
  have e: "Exec c inp out s =
      ((None, Some (out @ ''Updated GCS logging endpoint '' @ GCS.Name gcs @ '' (service ''
          @ GCS.ServiceID gcs @ '' version '' @ itoa (sint (GCS.Version gcs)) @ '')'')), s2)"
    by (simp add: Exec_def assms Success_def Sprintf_message)
  show ?thesis
    by (intro exI conjI, rule e, rule refl, rule sublist_message(1), rule sublist_message(2),
        rule sublist_message(3))
qed

lemma run_UpdateGCS_cmd:
  "call_UpdateGCS (Client (Globals cmd)) (merged cmd stored_gcs)
      ([CallGetGCS (get_request cmd)], [stored_gcs]) =
     (Inr (updated (merged cmd stored_gcs)),
      ([CallGetGCS (get_request cmd), CallUpdateGCS (merged cmd stored_gcs)],
       [updated (merged cmd stored_gcs)]))"
  by (simp add: call_UpdateGCS_def cmd_def cmd_with_def merged_def
        store_client_def same_endpoint_def stored_gcs_def)

text \<open>The update of the stored endpoint prints its new name, its service and its version.\<close>

theorem Exec_success_message_witness:
  "fst (Exec cmd [] [] ([], [stored_gcs])) =
     (None, Some ''Updated GCS logging endpoint logs2 (service svc1 version 2)'')
   \<and> sublist ''logs2'' ''Updated GCS logging endpoint logs2 (service svc1 version 2)''
   \<and> sublist ''svc1'' ''Updated GCS logging endpoint logs2 (service svc1 version 2)''
   \<and> sublist ''2'' ''Updated GCS logging endpoint logs2 (service svc1 version 2)''"
  using Exec_success_message [OF run_cmd run_UpdateGCS_cmd, of "[]" "[]"]
  by (simp add: cmd_def cmd_with_def merged_def updated_def stored_gcs_def given_def unset_def
        itoa_def utoa.simps digit_def)

subsection \<open>The required fields of the requests\<close>

lemma ServiceID_defined:
  "snd (ServiceID d) \<noteq> SourceUndefined \<Longrightarrow> fst (ServiceID d) \<noteq> []"
  by (simp add: ServiceID_def split: if_splits)

text \<open>A command that the parser accepts holds the values of the two required flags.\<close>

lemma fold_set_flag_EndpointName_other:
  "\<forall>x\<in>set args. name_of x \<noteq> ''name'' \<Longrightarrow>
     EndpointName (fold set_flag args c) = EndpointName c"
proof (induction args arbitrary: c)
  case Nil
  show ?case by simp
next
  case (Cons x xs)
  then have "EndpointName (fold set_flag xs (set_flag x c)) = EndpointName (set_flag x c)"
    by simp
  moreover from Cons.prems have "EndpointName (set_flag x c) = EndpointName c"
    by (cases x) simp_all
  ultimately show ?case by simp
qed

lemma fold_set_flag_Version_other:
  "\<forall>x\<in>set args. name_of x \<noteq> ''version'' \<Longrightarrow>
     UpdateCommand.Version (fold set_flag args c) = UpdateCommand.Version c"
proof (induction args arbitrary: c)
  case Nil
  show ?case by simp
next
  case (Cons x xs)
  then have "UpdateCommand.Version (fold set_flag xs (set_flag x c)) = UpdateCommand.Version (set_flag x c)"
    by simp
  moreover from Cons.prems have "UpdateCommand.Version (set_flag x c) = UpdateCommand.Version c"
    by (cases x) simp_all
  ultimately show ?case by simp
qed

lemma name_of_Flag_name: "name_of x = ''name'' \<longleftrightarrow> (\<exists>v. x = Flag_name v)"
  by (cases x) simp_all

lemma name_of_Flag_version: "name_of x = ''version'' \<longleftrightarrow> (\<exists>v. x = Flag_version v)"
  by (cases x) simp_all

lemma fold_set_flag_EndpointName:
  "distinct (map name_of args) \<Longrightarrow> ''name'' \<in> set (map name_of args) \<Longrightarrow>
     Flag_name (EndpointName (fold set_flag args c)) \<in> set args"
proof (induction args arbitrary: c)
  case Nil
  then show ?case by simp
next
  case (Cons x xs)
  show ?case
  proof (cases "name_of x = ''name''")
    case True
    then obtain v where x: "x = Flag_name v" by (auto simp: name_of_Flag_name)
    from Cons.prems(1) True have "\<forall>y\<in>set xs. name_of y \<noteq> ''name''" by force
    then have "EndpointName (fold set_flag xs (set_flag x c)) = EndpointName (set_flag x c)"
      by (rule fold_set_flag_EndpointName_other)
    with x show ?thesis by simp
  next
    case False
    with Cons.prems have "distinct (map name_of xs)" "''name'' \<in> set (map name_of xs)"
      by auto
    then have "Flag_name (EndpointName (fold set_flag xs (set_flag x c))) \<in> set xs"
      by (rule Cons.IH)
    then show ?thesis by simp
  qed
qed

lemma fold_set_flag_Version:
  "distinct (map name_of args) \<Longrightarrow> ''version'' \<in> set (map name_of args) \<Longrightarrow>
     Flag_version (UpdateCommand.Version (fold set_flag args c)) \<in> set args"
proof (induction args arbitrary: c)
  case Nil
  then show ?case by simp
next
  case (Cons x xs)
  show ?case
  proof (cases "name_of x = ''version''")
    case True
    then obtain v where x: "x = Flag_version v" by (auto simp: name_of_Flag_version)
    from Cons.prems(1) True have "\<forall>y\<in>set xs. name_of y \<noteq> ''version''" by force
    then have "UpdateCommand.Version (fold set_flag xs (set_flag x c)) = UpdateCommand.Version (set_flag x c)"
      by (rule fold_set_flag_Version_other)
    with x show ?thesis by simp
  next
    case False
    with Cons.prems have "distinct (map name_of xs)" "''version'' \<in> set (map name_of xs)"
      by auto
    then have "Flag_version (UpdateCommand.Version (fold set_flag xs (set_flag x c))) \<in> set xs"
      by (rule Cons.IH)
    then show ?thesis by simp
  qed
qed

lemma Parse_required:
  assumes "Parse c0 args = Inr c"
  shows "Flag_version (UpdateCommand.Version c) \<in> set args \<and> Flag_name (EndpointName c) \<in> set args"
proof -
  from assms have n: "''version'' \<in> set (map name_of args)" "''name'' \<in> set (map name_of args)"
    and d: "distinct (map name_of args)" and c: "c = fold set_flag args c0"
    by (auto simp: Parse_def required_flags_def split: option.splits if_splits)
  from d n show ?thesis unfolding c
    by (simp add: fold_set_flag_Version fold_set_flag_EndpointName)
qed

text \<open>The command line of \<open>cmd\<close> is parsed to \<open>cmd\<close>.\<close>

lemma Parse_cmd:
  "Parse (NewUpdateCommand \<lparr> Client = store_client \<rparr> \<lparr> manifest_File.ServiceID = [] \<rparr>) cmd_args = Inr cmd"
  by (simp add: Parse_def NewUpdateCommand_def cmd_args_def required_flags_def cmd_def cmd_with_def
        given_def unset_def)

text \<open>
  C6 fails as stated: the command line \<open>--service-id svc1 --version 0 --name ""\<close> gives
  both required flags and is accepted, the service ID is resolved from the flag, and
  \<open>Exec\<close> calls \<open>GetGCS\<close> (line 75) with the empty name and the version 0.
\<close>

theorem Exec_empty_name_counterexample:
  "Parse (NewUpdateCommand \<lparr> Client = store_client \<rparr> \<lparr> manifest_File.ServiceID = [] \<rparr>) blank_args =
     Inr blank_cmd
   \<and> fst (snd (Exec blank_cmd [] [] ([], [stored_gcs]))) =
       [CallGetGCS \<lparr> GetGCSInput.Service = ''svc1'', Name = [], Version = 0 \<rparr>]"
  by (simp add: Parse_def required_flags_def blank_cmd_def blank_args_def NewUpdateCommand_def
        Exec_eq ServiceID_def get_request_def store_client_def same_endpoint_def stored_gcs_def)

text \<open>
  C6, as amended. In every invocation in which \<open>Exec\<close> calls the API client, the service
  ID was resolved from a defined source and is not empty, and the first call is the
  \<open>GetGCS\<close> for that service ID with the name and the version that the command holds;
  an \<open>UpdateGCS\<close> follows exactly when \<open>GetGCS\<close> returned an object, and carries that
  object's service ID, version and name. When the command came from a command line that
  the parser accepted, the name and the version are the values of the \<open>--name\<close> and
  \<open>--version\<close> flags, both of which the command line gave; nothing checks that the
  name is not empty or that the version is not 0.
\<close>

theorem Exec_request_fields:
  assumes "fst (snd (Exec c inp out s)) \<noteq> fst s"
  shows "snd (ServiceID (manifest c)) \<noteq> SourceUndefined
     \<and> fst (ServiceID (manifest c)) \<noteq> []
     \<and> (\<exists>rest. fst (snd (Exec c inp out s)) =
                  fst s @ CallGetGCS \<lparr> GetGCSInput.Service = fst (ServiceID (manifest c)),
                                        Name = EndpointName c,
                                        Version = UpdateCommand.Version c \<rparr> # rest
           \<and> (case fst (GetGCS (Client (Globals c)) (get_request c) (snd s)) of
                 Inl err \<Rightarrow> rest = []
               | Inr gcs \<Rightarrow>
                   \<exists>u. rest = [CallUpdateGCS u]
                     \<and> UpdateGCSInput.Service u = GCS.ServiceID gcs
                     \<and> UpdateGCSInput.Version u = GCS.Version gcs
                     \<and> UpdateGCSInput.Name u = GCS.Name gcs))
     \<and> (\<forall>globals file args.
           Parse (NewUpdateCommand globals file) args = Inr c \<longrightarrow>
             Flag_version (UpdateCommand.Version c) \<in> set args
             \<and> Flag_name (EndpointName c) \<in> set args)"
proof -
  from assms have src: "snd (ServiceID (manifest c)) \<noteq> SourceUndefined"
    by (cases "snd (ServiceID (manifest c)) = SourceUndefined") (simp_all add: Exec_eq)
  have m: "UpdateGCSInput.Service (merged c g) = GCS.ServiceID g"
    "UpdateGCSInput.Version (merged c g) = GCS.Version g"
    "UpdateGCSInput.Name (merged c g) = GCS.Name g" for g
    by (simp_all add: merged_def)
  have "\<exists>rest. fst (snd (Exec c inp out s)) = fst s @ CallGetGCS (get_request c) # rest
           \<and> (case fst (GetGCS (Client (Globals c)) (get_request c) (snd s)) of
                 Inl err \<Rightarrow> rest = []
               | Inr gcs \<Rightarrow>
                   \<exists>u. rest = [CallUpdateGCS u]
                     \<and> UpdateGCSInput.Service u = GCS.ServiceID gcs
                     \<and> UpdateGCSInput.Version u = GCS.Version gcs
                     \<and> UpdateGCSInput.Name u = GCS.Name gcs)"
    using src by (simp add: Exec_eq m split: prod.split sum.split)
  with src ServiceID_defined [OF src] show ?thesis
    by (simp add: get_request_def Parse_required)
qed

text \<open>The update of the stored endpoint, from its command line to its two calls.\<close>

theorem Exec_request_fields_witness:
  "Parse (NewUpdateCommand \<lparr> Client = store_client \<rparr> \<lparr> manifest_File.ServiceID = [] \<rparr>) cmd_args = Inr cmd
   \<and> Flag_version 2 \<in> set cmd_args \<and> Flag_name ''logs'' \<in> set cmd_args
   \<and> fst (ServiceID (manifest cmd)) = ''svc1''
   \<and> fst (snd (Exec cmd [] [] ([], [stored_gcs]))) =
       [CallGetGCS \<lparr> GetGCSInput.Service = ''svc1'', Name = ''logs'', Version = 2 \<rparr>,
        CallUpdateGCS (merged cmd stored_gcs)]"
proof -
  have h: "fst (snd (Exec cmd [] [] ([], [stored_gcs]))) \<noteq> fst ([], [stored_gcs])"
    by (simp add: run_Exec_cmd)
  from Exec_request_fields [OF h] Parse_cmd
  have "Flag_version (UpdateCommand.Version cmd) \<in> set cmd_args
      \<and> Flag_name (EndpointName cmd) \<in> set cmd_args"
    by blast
  then have "Flag_version 2 \<in> set cmd_args \<and> Flag_name ''logs'' \<in> set cmd_args"
    by (simp add: cmd_def cmd_with_def)
  moreover have "fst (ServiceID (manifest cmd)) = ''svc1''"
    by (simp add: cmd_def cmd_with_def ServiceID_def)
  ultimately show ?thesis
    using Parse_cmd by (simp add: run_Exec_cmd) (simp add: cmd_def cmd_with_def ServiceID_def get_request_def)
qed

subsection \<open>Where the service ID comes from\<close>

text \<open>
  C7. The service ID of the \<open>GetGCS\<close> request is the value of the \<open>--service-id\<close> flag
  when one was passed (it is not empty); otherwise it is the service ID of the manifest
  file when that is not empty; and resolution fails, with \<open>ErrNoServiceID\<close> and no call,
  only when both are empty.
\<close>

theorem createInput_service_id_precedence:
  "(if manifest_Flag.ServiceID (Flag (manifest c)) \<noteq> []
    then ServiceID (manifest c) = (manifest_Flag.ServiceID (Flag (manifest c)), SourceFlag)
       \<and> fst (snd (createInput c s)) =
           fst s @ [CallGetGCS \<lparr> GetGCSInput.Service = manifest_Flag.ServiceID (Flag (manifest c)),
                                  Name = EndpointName c,
                                  Version = UpdateCommand.Version c \<rparr>]
    else if manifest_File.ServiceID (File (manifest c)) \<noteq> []
    then ServiceID (manifest c) = (manifest_File.ServiceID (File (manifest c)), SourceFile)
       \<and> fst (snd (createInput c s)) =
           fst s @ [CallGetGCS \<lparr> GetGCSInput.Service = manifest_File.ServiceID (File (manifest c)),
                                  Name = EndpointName c,
                                  Version = UpdateCommand.Version c \<rparr>]
    else createInput c s = (Inl ErrNoServiceID, s))
   \<and> (snd (ServiceID (manifest c)) = SourceUndefined \<longleftrightarrow>
        manifest_Flag.ServiceID (Flag (manifest c)) = []
        \<and> manifest_File.ServiceID (File (manifest c)) = [])"
  by (simp add: createInput_eq ServiceID_def get_request_def split: prod.split)

text \<open>Flag and file, the file alone, and neither.\<close>

theorem createInput_service_id_precedence_witness:
  "fst (snd (createInput (cmd_with store_client ''zzz'' ''svc1'' ''logs'') ([], [stored_gcs]))) =
     [CallGetGCS \<lparr> GetGCSInput.Service = ''zzz'', Name = ''logs'', Version = 2 \<rparr>]
   \<and> fst (snd (createInput (cmd_with store_client [] ''svc1'' ''logs'') ([], [stored_gcs]))) =
     [CallGetGCS \<lparr> GetGCSInput.Service = ''svc1'', Name = ''logs'', Version = 2 \<rparr>]
   \<and> createInput (cmd_with store_client [] [] ''logs'') ([], [stored_gcs]) =
     (Inl ErrNoServiceID, ([], [stored_gcs]))"
  using createInput_service_id_precedence [of "cmd_with store_client ''zzz'' ''svc1'' ''logs''" "([], [stored_gcs])"]
    createInput_service_id_precedence [of "cmd_with store_client [] ''svc1'' ''logs''" "([], [stored_gcs])"]
    createInput_service_id_precedence [of "cmd_with store_client [] [] ''logs''" "([], [stored_gcs])"]
  by (simp add: cmd_with_def)

subsection \<open>An update without a new name\<close>

text \<open>
  C8. When \<open>--new-name\<close> is not set, the \<open>NewName\<close> of the input that \<open>createInput\<close> returns
  is the name of the object that \<open>GetGCS\<close> returned, which is also the input's \<open>Name\<close>: the
  request asks that the endpoint keep its name.
\<close>

theorem createInput_keeps_name_without_new_name:
  assumes "createInput c s = (Inr input, s')"
    and "\<not> Valid (UpdateCommand.NewName c)"
  shows "\<exists>gcs w'. GetGCS (Client (Globals c)) (get_request c) (snd s) = (Inr gcs, w')
     \<and> UpdateGCSInput.NewName input = GCS.Name gcs
     \<and> UpdateGCSInput.Name input = GCS.Name gcs"
proof -
  obtain r w' where g: "GetGCS (Client (Globals c)) (get_request c) (snd s) = (r, w')"
    by (cases "GetGCS (Client (Globals c)) (get_request c) (snd s)")
  from assms(1) have src: "snd (ServiceID (manifest c)) \<noteq> SourceUndefined"
    by (cases "snd (ServiceID (manifest c)) = SourceUndefined") (simp_all add: createInput_eq)
  from assms(1) src g obtain gcs where r: "r = Inr gcs" and i: "input = merged c gcs"
    by (cases r) (simp_all add: createInput_eq)
  from assms(2) show ?thesis
    unfolding g r i by (simp add: merged_def)
qed

text \<open>The command \<open>cmd\<close> without \<open>--new-name\<close>, against the stored endpoint.\<close>

lemma run_cmd_no_new_name:
  "createInput (cmd\<lparr>UpdateCommand.NewName := unset []\<rparr>) ([], [stored_gcs]) =
     (Inr (merged (cmd\<lparr>UpdateCommand.NewName := unset []\<rparr>) stored_gcs),
      ([CallGetGCS (get_request cmd)], [stored_gcs]))"
  by (simp add: createInput_eq cmd_def cmd_with_def ServiceID_def get_request_def
        store_client_def same_endpoint_def stored_gcs_def)

theorem createInput_keeps_name_without_new_name_witness:
  "\<exists>input s'. createInput (cmd\<lparr>UpdateCommand.NewName := unset []\<rparr>) ([], [stored_gcs]) = (Inr input, s')
     \<and> UpdateGCSInput.NewName input = ''logs''
     \<and> UpdateGCSInput.Name input = ''logs''"
proof -
  have v: "\<not> Valid (UpdateCommand.NewName (cmd\<lparr>UpdateCommand.NewName := unset []\<rparr>))"
    by (simp add: unset_def)
  have g: "GetGCS (Client (Globals (cmd\<lparr>UpdateCommand.NewName := unset []\<rparr>)))
             (get_request (cmd\<lparr>UpdateCommand.NewName := unset []\<rparr>)) (snd ([], [stored_gcs])) =
           (Inr stored_gcs, [stored_gcs])"
    by (simp add: cmd_def cmd_with_def ServiceID_def get_request_def
        store_client_def same_endpoint_def stored_gcs_def)
  from createInput_keeps_name_without_new_name [OF run_cmd_no_new_name v, unfolded g]
  have "UpdateGCSInput.NewName (merged (cmd\<lparr>UpdateCommand.NewName := unset []\<rparr>) stored_gcs) = ''logs''
     \<and> UpdateGCSInput.Name (merged (cmd\<lparr>UpdateCommand.NewName := unset []\<rparr>) stored_gcs) = ''logs''"
    by (simp add: stored_gcs_def)
  with run_cmd_no_new_name show ?thesis by blast
qed

subsection \<open>A failed fetch\<close>

text \<open>
  C9. When the service ID is resolved and \<open>GetGCS\<close> returns an error, \<open>createInput\<close>
  returns that error, and so does \<open>Exec\<close>, which writes nothing; the only call made is
  the \<open>GetGCS\<close>, so \<open>UpdateGCS\<close> is not invoked.
\<close>

theorem Exec_stops_at_GetGCS_error:
  assumes "snd (ServiceID (manifest c)) \<noteq> SourceUndefined"
    and "GetGCS (Client (Globals c)) (get_request c) (snd s) = (Inl err, w1)"
  shows "createInput c s = (Inl err, (fst s @ [CallGetGCS (get_request c)], w1))
     \<and> Exec c inp out s = ((Some err, Some out), (fst s @ [CallGetGCS (get_request c)], w1))"
  using assms by (simp add: createInput_eq Exec_eq)

text \<open>The endpoint named \<open>nope\<close> is not stored.\<close>

theorem Exec_stops_at_GetGCS_error_witness:
  "createInput (cmd_with store_client ''svc1'' [] ''nope'') ([], [stored_gcs]) =
     (Inl (APIError ''404 Not Found''),
      ([CallGetGCS \<lparr> GetGCSInput.Service = ''svc1'', Name = ''nope'', Version = 2 \<rparr>], [stored_gcs]))
   \<and> Exec (cmd_with store_client ''svc1'' [] ''nope'') [] [] ([], [stored_gcs]) =
     ((Some (APIError ''404 Not Found''), Some []),
      ([CallGetGCS \<lparr> GetGCSInput.Service = ''svc1'', Name = ''nope'', Version = 2 \<rparr>], [stored_gcs]))"
proof -
  have h1: "snd (ServiceID (manifest (cmd_with store_client ''svc1'' [] ''nope''))) \<noteq> SourceUndefined"
    by (simp add: cmd_with_def ServiceID_def)
  have h2: "GetGCS (Client (Globals (cmd_with store_client ''svc1'' [] ''nope'')))
              (get_request (cmd_with store_client ''svc1'' [] ''nope'')) (snd ([], [stored_gcs])) =
            (Inl (APIError ''404 Not Found''), [stored_gcs])"
    by (simp add: cmd_with_def ServiceID_def get_request_def
        store_client_def same_endpoint_def stored_gcs_def)
  from Exec_stops_at_GetGCS_error [OF h1 h2, of "[]" "[]"] show ?thesis
    by (simp add: get_request_def) (simp add: cmd_with_def ServiceID_def)
qed


subsection \<open>The message is made from the response\<close>

text \<open>
  C10. The name, the service ID and the version of the confirmation are those of the
  object that \<open>UpdateGCS\<close> returned: the message is that object's three values in the
  format, and two successful invocations whose responses agree on the three values
  print the same message, whatever their flags, their clients and the state before.
\<close>

theorem Exec_message_from_response:
  assumes "createInput c s = (Inr input, s1)"
    and "call_UpdateGCS (Client (Globals c)) input s1 = (Inr gcs, s2)"
    and "createInput c' t = (Inr input', t1)"
    and "call_UpdateGCS (Client (Globals c')) input' t1 = (Inr gcs', t2)"
    and "GCS.Name gcs' = GCS.Name gcs"
    and "GCS.ServiceID gcs' = GCS.ServiceID gcs"
    and "GCS.Version gcs' = GCS.Version gcs"
  shows "snd (fst (Exec c inp out s)) =
           Some (out @ ''Updated GCS logging endpoint '' @ GCS.Name gcs @ '' (service ''
                   @ GCS.ServiceID gcs @ '' version '' @ itoa (sint (GCS.Version gcs)) @ '')'')
     \<and> snd (fst (Exec c' inp' out t)) = snd (fst (Exec c inp out s))"
  by (simp add: Exec_def assms Success_def Sprintf_message)

text \<open>Runs against the client that answers every update with \<open>api_gcs\<close>.\<close>

lemma run_canned:
  assumes "flag_id \<noteq> [] \<or> file_id \<noteq> []"
  shows "createInput (canned_cmd flag_id file_id name) ([], ()) =
     (Inr (merged (canned_cmd flag_id file_id name) stored_gcs),
      ([CallGetGCS (get_request (canned_cmd flag_id file_id name))], ()))"
  using assms
  by (auto simp add: createInput_eq canned_cmd_def cmd_with_def ServiceID_def canned_client_def)

lemma run_canned_update:
  "call_UpdateGCS (Client (Globals (canned_cmd flag_id file_id name))) i (l, ()) =
     (Inr api_gcs, (l @ [CallUpdateGCS i], ()))"
  by (simp add: call_UpdateGCS_def canned_cmd_def cmd_with_def canned_client_def)

text \<open>
  A rename of \<open>logs\<close> to \<open>logs2\<close> on service \<open>svc1\<close>, and another command line with the
  service ID from the manifest: both print the name, service and version of the response.
\<close>

theorem Exec_message_from_response_witness:
  "snd (fst (Exec (canned_cmd ''svc1'' [] ''logs'') [] [] ([], ()))) =
     Some ''Updated GCS logging endpoint renamed (service svc9 version 7)''
   \<and> snd (fst (Exec (canned_cmd [] ''svc2'' ''other'') [] [] ([], ()))) =
     Some ''Updated GCS logging endpoint renamed (service svc9 version 7)''"
proof -
  have a: "createInput (canned_cmd ''svc1'' [] ''logs'') ([], ()) =
     (Inr (merged (canned_cmd ''svc1'' [] ''logs'') stored_gcs),
      ([CallGetGCS (get_request (canned_cmd ''svc1'' [] ''logs''))], ()))"
    by (rule run_canned) simp
  have b: "createInput (canned_cmd [] ''svc2'' ''other'') ([], ()) =
     (Inr (merged (canned_cmd [] ''svc2'' ''other'') stored_gcs),
      ([CallGetGCS (get_request (canned_cmd [] ''svc2'' ''other''))], ()))"
    by (rule run_canned) simp
  from Exec_message_from_response
    [where inp = "[]" and out = "[]" and inp' = "[]",
      OF a run_canned_update b run_canned_update refl refl refl]
  show ?thesis
    by (simp add: api_gcs_def stored_gcs_def itoa_def utoa.simps digit_def)
qed

end
